theory Spec2Isabelle
  imports Main "HOL-Library.Sublist" "HOL-Library.Char_ord" "HOL-Library.List_Lexorder"
begin

section \<open>The catalog engine of \<^verbatim>\<open>animation.js\<close> (class \<^verbatim>\<open>PortfolioManager\<close>)\<close>

subsection \<open>Strings and the string builtins the class calls\<close>

text \<open>
  A JavaScript string is modelled as a \<^typ>\<open>string\<close>, one \<^typ>\<open>char\<close> per code unit.
  The three builtins below are the ECMAScript ones restricted to the ASCII range:
  \<^verbatim>\<open>toLowerCase\<close> maps \<^verbatim>\<open>A\<close>..\<^verbatim>\<open>Z\<close> to \<^verbatim>\<open>a\<close>..\<^verbatim>\<open>z\<close> and leaves every other
  code unit alone, \<^verbatim>\<open>trim\<close> strips TAB, LF, VT, FF, CR and SPACE from both ends.
  The Unicode case tables and the non-ASCII white space of the real builtins are not
  modelled; only the evaluation of concrete ASCII inputs depends on this choice.
\<close>

definition toLowerCase_char :: "char \<Rightarrow> char" where
  "toLowerCase_char c =
     (let n = (of_char c :: nat) in if 65 \<le> n \<and> n \<le> 90 then char_of (n + 32) else c)"

definition toLowerCase :: "string \<Rightarrow> string" where
  "toLowerCase s = map toLowerCase_char s"

definition isWhiteSpace :: "char \<Rightarrow> bool" where
  "isWhiteSpace c = ((of_char c :: nat) \<in> {9, 10, 11, 12, 13, 32})"

definition trim :: "string \<Rightarrow> string" where
  "trim s = rev (dropWhile isWhiteSpace (rev (dropWhile isWhiteSpace s)))"

text \<open>\<^verbatim>\<open>s.includes(q)\<close>: is there a position of \<open>s\<close> at which \<open>q\<close> starts.\<close>

fun includes_str :: "string \<Rightarrow> string \<Rightarrow> bool" where
  "includes_str [] q = (q = [])"
| "includes_str (c # cs) q = (prefix q (c # cs) \<or> includes_str cs q)"

subsection \<open>A JavaScript \<^verbatim>\<open>Set\<close>: its elements in insertion order\<close>

type_synonym 'a jsset = "'a list"

definition Set_has :: "'a jsset \<Rightarrow> 'a \<Rightarrow> bool" where
  "Set_has s x = (x \<in> set s)"

definition Set_add :: "'a jsset \<Rightarrow> 'a \<Rightarrow> 'a jsset" where
  "Set_add s x = (if x \<in> set s then s else s @ [x])"

definition Set_delete :: "'a jsset \<Rightarrow> 'a \<Rightarrow> 'a jsset" where
  "Set_delete s x = filter (\<lambda>y. y \<noteq> x) s"

definition Set_size :: "'a jsset \<Rightarrow> nat" where
  "Set_size s = length s"

definition Set_clear :: "'a jsset \<Rightarrow> 'a jsset" where
  "Set_clear s = []"

subsection \<open>Data model\<close>

text \<open>
  A Work object. \<open>work_id\<close> is the field \<^verbatim>\<open>id\<close>: a draft has none (\<open>None\<close>) until
  \<^verbatim>\<open>addWork\<close> assigns one. \<open>image_data\<close> is the field \<^verbatim>\<open>image\<close>.
\<close>

record work =
  work_id :: "int option"
  image_data :: string
  title :: string
  description :: string
  tags :: "string list"
  author :: string
  instagramUrl :: string

text \<open>
  The object passed to \<^verbatim>\<open>addFavorite\<close>, and the entry it stores:
  \<^verbatim>\<open>{...artist, addedDate: new Date().toISOString()}\<close>.
\<close>

record artist =
  name :: string
  workCount :: "int option"

record favorite = artist +
  addedDate :: string

datatype error = SyntaxError

text \<open>
  Builtins of the host that are taken as parameters: \<^verbatim>\<open>JSON.stringify\<close> and
  \<^verbatim>\<open>JSON.parse\<close> at the three types they are used at (\<open>Inl SyntaxError\<close> is the
  exception \<^verbatim>\<open>JSON.parse\<close> throws), and \<^verbatim>\<open>Date.prototype.toISOString\<close> on a clock
  reading in milliseconds.
\<close>

record builtins =
  JSON_stringify_works :: "work list \<Rightarrow> string"
  JSON_stringify_ids :: "int list \<Rightarrow> string"
  JSON_stringify_favorites :: "favorite list \<Rightarrow> string"
  JSON_parse_works :: "string \<Rightarrow> error + work list"
  JSON_parse_ids :: "string \<Rightarrow> error + int list"
  JSON_parse_favorites :: "string \<Rightarrow> error + favorite list"
  toISOString :: "int \<Rightarrow> string"

text \<open>
  Work objects live in the JavaScript heap and arrays hold references to them, so the
  state carries an object store \<open>heap\<close> from references to Work objects, and
  \<open>works\<close> and \<open>filteredWorks\<close> are lists of references. \<open>localStorage\<close> is the
  blob store: key to stored text, \<open>None\<close> where \<^verbatim>\<open>getItem\<close> returns \<^verbatim>\<open>null\<close>.
  \<^verbatim>\<open>setItem\<close> always succeeds, as the persistence contract assumes.
\<close>

type_synonym ref = nat

record manager =
  heap :: "ref \<Rightarrow> work"
  localStorage :: "string \<rightharpoonup> string"
  works :: "ref list"
  favorites :: "favorite list"
  savedWorks :: "int list"
  filteredWorks :: "ref list"
  activeFilters :: "string jsset"
  searchQuery :: string

definition storageKey :: string where
  "storageKey = ''portfolioWorks''"

definition favoritesKey :: string where
  "favoritesKey = ''favoriteArtists''"

definition savedWorksKey :: string where
  "savedWorksKey = ''savedWorks''"

subsection \<open>Persistence\<close>

text \<open>
  \<^verbatim>\<open>const data = localStorage.getItem(key); return data ? JSON.parse(data) : [];\<close>
  The empty text is falsy as well as \<^verbatim>\<open>null\<close>. A loader returns the parsed collection
  by value; the constructor, which runs the three loaders and keeps their results, is not
  part of the model.
\<close>

definition loadWorks :: "builtins \<Rightarrow> (string \<rightharpoonup> string) \<Rightarrow> error + work list" where
  "loadWorks b ls =
     (case ls storageKey of
        None \<Rightarrow> Inr []
      | Some data \<Rightarrow> if data = [] then Inr [] else JSON_parse_works b data)"

definition loadSavedWorks :: "builtins \<Rightarrow> (string \<rightharpoonup> string) \<Rightarrow> error + int list" where
  "loadSavedWorks b ls =
     (case ls savedWorksKey of
        None \<Rightarrow> Inr []
      | Some data \<Rightarrow> if data = [] then Inr [] else JSON_parse_ids b data)"

definition loadFavorites :: "builtins \<Rightarrow> (string \<rightharpoonup> string) \<Rightarrow> error + favorite list" where
  "loadFavorites b ls =
     (case ls favoritesKey of
        None \<Rightarrow> Inr []
      | Some data \<Rightarrow> if data = [] then Inr [] else JSON_parse_favorites b data)"

definition saveWorks :: "builtins \<Rightarrow> manager \<Rightarrow> manager" where
  "saveWorks b m =
     m\<lparr>localStorage :=
         (localStorage m)(storageKey \<mapsto> JSON_stringify_works b (map (heap m) (works m)))\<rparr>"

definition saveSavedWorks :: "builtins \<Rightarrow> manager \<Rightarrow> manager" where
  "saveSavedWorks b m =
     m\<lparr>localStorage :=
         (localStorage m)(savedWorksKey \<mapsto> JSON_stringify_ids b (savedWorks m))\<rparr>"

definition saveFavorites :: "builtins \<Rightarrow> manager \<Rightarrow> manager" where
  "saveFavorites b m =
     m\<lparr>localStorage :=
         (localStorage m)(favoritesKey \<mapsto> JSON_stringify_favorites b (favorites m))\<rparr>"

subsection \<open>Saved works and favorites\<close>

definition isWorkSaved :: "manager \<Rightarrow> int \<Rightarrow> bool" where
  "isWorkSaved m workId = (workId \<in> set (savedWorks m))"

definition toggleSaveWork :: "builtins \<Rightarrow> int \<Rightarrow> manager \<Rightarrow> manager" where
  "toggleSaveWork b workId m =
     saveSavedWorks b
       (if workId \<in> set (savedWorks m)
        then m\<lparr>savedWorks := filter (\<lambda>i. i \<noteq> workId) (savedWorks m)\<rparr>
        else m\<lparr>savedWorks := savedWorks m @ [workId]\<rparr>)"

text \<open>\<open>now\<close> is the clock reading behind \<^verbatim>\<open>new Date()\<close>.\<close>

definition addFavorite :: "builtins \<Rightarrow> int \<Rightarrow> artist \<Rightarrow> manager \<Rightarrow> manager" where
  "addFavorite b now a m =
     (if find (\<lambda>fav. name fav = name a) (favorites m) = None
      then saveFavorites b
             (m\<lparr>favorites := favorites m @
                  [\<lparr>name = name a, workCount = workCount a, addedDate = toISOString b now\<rparr>]\<rparr>)
      else m)"

definition removeFavorite :: "builtins \<Rightarrow> string \<Rightarrow> manager \<Rightarrow> manager" where
  "removeFavorite b artistName m =
     saveFavorites b (m\<lparr>favorites := filter (\<lambda>fav. name fav \<noteq> artistName) (favorites m)\<rparr>)"

definition isFavorited :: "manager \<Rightarrow> string \<Rightarrow> bool" where
  "isFavorited m artistName = list_ex (\<lambda>fav. name fav = artistName) (favorites m)"

subsection \<open>The filter engine\<close>

definition searchMatch :: "string \<Rightarrow> work \<Rightarrow> bool" where
  "searchMatch q w =
     (q = [] \<or>
      includes_str (toLowerCase (title w)) (toLowerCase q) \<or>
      includes_str (toLowerCase (description w)) (toLowerCase q) \<or>
      includes_str (toLowerCase (author w)) (toLowerCase q))"

definition tagMatch :: "string jsset \<Rightarrow> work \<Rightarrow> bool" where
  "tagMatch fs w =
     (Set_size fs = 0 \<or> list_ex (\<lambda>tag. Set_has fs (toLowerCase (trim tag))) (tags w))"

definition applyFilters :: "manager \<Rightarrow> manager" where
  "applyFilters m =
     m\<lparr>filteredWorks :=
         filter (\<lambda>r. searchMatch (searchQuery m) (heap m r) \<and> tagMatch (activeFilters m) (heap m r))
           (works m)\<rparr>"

definition setSearchQuery :: "string \<Rightarrow> manager \<Rightarrow> manager" where
  "setSearchQuery query m = applyFilters (m\<lparr>searchQuery := query\<rparr>)"

definition toggleFilter :: "string \<Rightarrow> manager \<Rightarrow> manager" where
  "toggleFilter tag m =
     (let normalizedTag = toLowerCase (trim tag)
      in applyFilters
           (if Set_has (activeFilters m) normalizedTag
            then m\<lparr>activeFilters := Set_delete (activeFilters m) normalizedTag\<rparr>
            else m\<lparr>activeFilters := Set_add (activeFilters m) normalizedTag\<rparr>))"

definition clearFilters :: "manager \<Rightarrow> manager" where
  "clearFilters m = applyFilters (m\<lparr>activeFilters := Set_clear (activeFilters m)\<rparr>)"

subsection \<open>The catalog\<close>

text \<open>
  \<^verbatim>\<open>addWork(work)\<close>: \<open>work\<close> is the reference the caller passes, \<open>now\<close> the value
  of \<^verbatim>\<open>Date.now()\<close>. The assignment \<^verbatim>\<open>work.id = Date.now()\<close> writes to the object
  in the heap; \<^verbatim>\<open>push\<close> appends the reference.
\<close>

definition addWork :: "builtins \<Rightarrow> int \<Rightarrow> ref \<Rightarrow> manager \<Rightarrow> manager" where
  "addWork b now work m =
     (let m1 = m\<lparr>heap := (heap m)(work := (heap m work)\<lparr>work_id := Some now\<rparr>)\<rparr>;
          m2 = m1\<lparr>works := works m1 @ [work]\<rparr>
      in applyFilters (saveWorks b m2))"

definition deleteWork :: "builtins \<Rightarrow> int \<Rightarrow> manager \<Rightarrow> manager" where
  "deleteWork b i m =
     applyFilters
       (saveWorks b (m\<lparr>works := filter (\<lambda>r. work_id (heap m r) \<noteq> Some i) (works m)\<rparr>))"

definition getAllTags :: "manager \<Rightarrow> string list" where
  "getAllTags m =
     sort (foldl (\<lambda>tagSet r.
                    foldl (\<lambda>ts tag. Set_add ts (toLowerCase (trim tag))) tagSet (tags (heap m r)))
                 [] (works m))"

subsection \<open>Callers\<close>

text \<open>
  What a reader of \<^verbatim>\<open>this.works\<close> sees: the objects the references point to.
\<close>

definition worksView :: "manager \<Rightarrow> work list" where
  "worksView m = map (heap m) (works m)"

text \<open>
  A caller that still holds the reference \<open>r\<close> and assigns to fields of the object:
  the object at \<open>r\<close> becomes \<open>f\<close> of what it was, nothing else changes.
\<close>

definition mutate :: "ref \<Rightarrow> (work \<Rightarrow> work) \<Rightarrow> manager \<Rightarrow> manager" where
  "mutate r f m = m\<lparr>heap := (heap m)(r := f (heap m r))\<rparr>"

text \<open>
  A sequence of \<^verbatim>\<open>addWork\<close> calls, each with its clock reading and the draft passed.
  The first component collects the id each call assigned: the \<^verbatim>\<open>id\<close> field of the
  draft, read when the call returns.
\<close>

fun addWorks :: "builtins \<Rightarrow> (int \<times> ref) list \<Rightarrow> manager \<Rightarrow> int option list \<times> manager" where
  "addWorks b [] m = ([], m)"
| "addWorks b ((now, work) # calls) m =
     (let m' = addWork b now work m;
          (ids, m'') = addWorks b calls m'
      in (work_id (heap m' work) # ids, m''))"

text \<open>The public mutators of the class, and a caller that runs a sequence of them.\<close>

datatype operation =
    AddWork int ref
  | DeleteWork int
  | ToggleSaveWork int
  | AddFavorite int artist
  | RemoveFavorite string
  | SetSearchQuery string
  | ToggleFilter string
  | ClearFilters

fun perform :: "builtins \<Rightarrow> operation \<Rightarrow> manager \<Rightarrow> manager" where
  "perform b (AddWork now work) m = addWork b now work m"
| "perform b (DeleteWork i) m = deleteWork b i m"
| "perform b (ToggleSaveWork i) m = toggleSaveWork b i m"
| "perform b (AddFavorite now a) m = addFavorite b now a m"
| "perform b (RemoveFavorite n) m = removeFavorite b n m"
| "perform b (SetSearchQuery q) m = setSearchQuery q m"
| "perform b (ToggleFilter tag) m = toggleFilter tag m"
| "perform b ClearFilters m = clearFilters m"

fun performAll :: "builtins \<Rightarrow> operation list \<Rightarrow> manager \<Rightarrow> manager" where
  "performAll b [] m = m"
| "performAll b (x # xs) m = performAll b xs (perform b x m)"

subsection \<open>The specification's predicates\<close>

text \<open>
  The two predicates of the recomputation algorithm as the specification words them:
  the query is empty or its lower-cased form is a substring of the lower-cased title,
  description or author; the set of active filters is empty or holds the normalized
  form of one of the Work's tags. \<open>sublist q s\<close> says that \<open>s\<close> is \<open>q\<close> with something
  before and something after.
\<close>

definition normalized :: "string \<Rightarrow> string" where
  "normalized tag = toLowerCase (trim tag)"

definition spec_search_match :: "string \<Rightarrow> work \<Rightarrow> bool" where
  "spec_search_match q w =
     (q = [] \<or>
      sublist (toLowerCase q) (toLowerCase (title w)) \<or>
      sublist (toLowerCase q) (toLowerCase (description w)) \<or>
      sublist (toLowerCase q) (toLowerCase (author w)))"

definition spec_tag_match :: "string set \<Rightarrow> work \<Rightarrow> bool" where
  "spec_tag_match A w = (A = {} \<or> (\<exists>tag \<in> set (tags w). normalized tag \<in> A))"

text \<open>At most one favorite entry per name.\<close>

definition unique_names :: "manager \<Rightarrow> bool" where
  "unique_names m = distinct (map name (favorites m))"

subsection \<open>Concrete states\<close>

definition ex_builtins :: builtins where
  "ex_builtins =
     \<lparr>JSON_stringify_works = (\<lambda>ws. replicate (length ws) CHR ''w''),
      JSON_stringify_ids = (\<lambda>is. replicate (length is) CHR ''i''),
      JSON_stringify_favorites = (\<lambda>fs. replicate (length fs) CHR ''f''),
      JSON_parse_works = (\<lambda>s. Inl SyntaxError),
      JSON_parse_ids = (\<lambda>s. Inl SyntaxError),
      JSON_parse_favorites = (\<lambda>s. Inl SyntaxError),
      toISOString = (\<lambda>t. ''2026-01-01T00:00:00.000Z'')\<rparr>"

definition ex_work :: "int option \<Rightarrow> string \<Rightarrow> string \<Rightarrow> string list \<Rightarrow> work" where
  "ex_work i t a ts =
     \<lparr>work_id = i, image_data = ''data:'', title = t, description = [], tags = ts,
      author = a, instagramUrl = []\<rparr>"

text \<open>
  References 1 and 2 are the two Works of the specification's examples, 3 and 4 are
  drafts that are not in the catalog, 5 and 6 carry the tags of the example for
  \<^verbatim>\<open>getAllTags\<close>.
\<close>

definition ex_heap :: "ref \<Rightarrow> work" where
  "ex_heap =
     (\<lambda>r. ex_work None [] [] [])
       (1 := ex_work (Some 1) ''Cat Logo'' ''Ann'' [''Logo Design''],
        2 := ex_work (Some 2) ''Banner'' ''Bo'' [''Banner Design''],
        3 := ex_work None ''Draft'' ''Cy'' [''Minimal''],
        4 := ex_work None ''Sketch'' ''Di'' [''Line Art''],
        5 := ex_work (Some 5) ''Five'' ''Ed'' [''Logo Design'', '' logo design ''],
        6 := ex_work (Some 6) ''Six'' ''Flo'' [''UI Design''])"

definition ex_manager :: manager where
  "ex_manager =
     \<lparr>heap = ex_heap, localStorage = Map.empty, works = [1, 2], favorites = [],
      savedWorks = [], filteredWorks = [1, 2], activeFilters = [], searchQuery = []\<rparr>"

definition ex_tagged :: manager where
  "ex_tagged = ex_manager\<lparr>works := [5, 6], filteredWorks := [5, 6]\<rparr>"

definition ex_artist :: artist where
  "ex_artist = \<lparr>name = ''A'', workCount = None\<rparr>"

section \<open>Properties\<close>

subsection \<open>The code's predicates are the specification's\<close>

lemma includes_str_sublist: "includes_str s q \<longleftrightarrow> sublist q s"
  by (induction s) (simp_all add: sublist_Cons_right)

lemma searchMatch_spec: "searchMatch q w = spec_search_match q w"
  by (simp add: searchMatch_def spec_search_match_def includes_str_sublist)

lemma tagMatch_spec: "tagMatch fs w = spec_tag_match (set fs) w"
  by (auto simp add: tagMatch_def spec_tag_match_def Set_size_def Set_has_def normalized_def
      list_ex_iff)

lemma filteredWorks_applyFilters:
  "filteredWorks (applyFilters m) =
     filter (\<lambda>r. spec_search_match (searchQuery m) (heap m r) \<and>
                 spec_tag_match (set (activeFilters m)) (heap m r)) (works m)"
  by (simp add: applyFilters_def searchMatch_spec tagMatch_spec)

lemma applyFilters_frame:
  "heap (applyFilters m) = heap m"
  "works (applyFilters m) = works m"
  "searchQuery (applyFilters m) = searchQuery m"
  "activeFilters (applyFilters m) = activeFilters m"
  "favorites (applyFilters m) = favorites m"
  "savedWorks (applyFilters m) = savedWorks m"
  "localStorage (applyFilters m) = localStorage m"
  by (simp_all add: applyFilters_def)

subsection \<open>Filtering\<close>

text \<open>
  C1. After \<^verbatim>\<open>applyFilters\<close>, \<open>filteredWorks\<close> is the Works collection filtered by the
  conjunction of the specification's search predicate and tag predicate, in the order of
  the Works collection: a Work is in \<open>filteredWorks\<close> if and only if it is in the
  catalog and both predicates hold of it, and \<open>filteredWorks\<close> is a subsequence of
  \<open>works\<close>.
\<close>

theorem applyFilters_iff_both_predicates:
  "filteredWorks (applyFilters m) =
     filter (\<lambda>r. spec_search_match (searchQuery m) (heap m r) \<and>
                 spec_tag_match (set (activeFilters m)) (heap m r)) (works m)
   \<and> (\<forall>r. r \<in> set (filteredWorks (applyFilters m)) \<longleftrightarrow>
            r \<in> set (works m) \<and> spec_search_match (searchQuery m) (heap m r) \<and>
            spec_tag_match (set (activeFilters m)) (heap m r))
   \<and> subseq (filteredWorks (applyFilters m)) (works m)"
  by (simp add: filteredWorks_applyFilters)

text \<open>
  The specification's example: of the Works "Cat Logo" and "Banner", the query
  \<^verbatim>\<open>cat\<close> keeps the first only.
\<close>

theorem applyFilters_iff_both_predicates_witness:
  "filteredWorks (applyFilters (ex_manager\<lparr>searchQuery := ''cat''\<rparr>)) = [1]
   \<and> subseq [1] (works ex_manager)"
proof -
  have e: "filter (\<lambda>r. spec_search_match ''cat'' (ex_heap r) \<and>
                        spec_tag_match (set []) (ex_heap r)) [1, 2] = [1]"
    by code_simp
  show ?thesis
    using applyFilters_iff_both_predicates [of "ex_manager\<lparr>searchQuery := ''cat''\<rparr>"] e
    by (simp add: ex_manager_def)
qed

subsection \<open>The tag vocabulary\<close>

lemma set_fold_tags:
  "set (foldl (\<lambda>ts tag. Set_add ts (toLowerCase (trim tag))) acc tgs) =
     set acc \<union> normalized ` set tgs"
  by (induction tgs arbitrary: acc) (auto simp: Set_add_def normalized_def)

lemma distinct_fold_tags:
  "distinct acc \<Longrightarrow> distinct (foldl (\<lambda>ts tag. Set_add ts (toLowerCase (trim tag))) acc tgs)"
  by (induction tgs arbitrary: acc) (auto simp: Set_add_def)

lemma set_fold_works:
  "set (foldl (\<lambda>tagSet r.
                 foldl (\<lambda>ts tag. Set_add ts (toLowerCase (trim tag))) tagSet (tags (h r)))
              acc rs)
     = set acc \<union> (\<Union>r \<in> set rs. normalized ` set (tags (h r)))"
  by (induction rs arbitrary: acc) (auto simp: set_fold_tags)

lemma distinct_fold_works:
  "distinct acc \<Longrightarrow>
   distinct (foldl (\<lambda>tagSet r.
                      foldl (\<lambda>ts tag. Set_add ts (toLowerCase (trim tag))) tagSet (tags (h r)))
                   acc rs)"
  by (induction rs arbitrary: acc) (auto simp: distinct_fold_tags)

text \<open>
  C2. \<^verbatim>\<open>getAllTags()\<close> returns a list that is sorted ascending in the lexicographic
  order of strings, has no duplicates, and whose elements are exactly the normalized
  (\<^verbatim>\<open>trim().toLowerCase()\<close>) tags of the Works of the catalog. On two Works with the tags
  \<^verbatim>\<open>["Logo Design", " logo design "]\<close> and \<^verbatim>\<open>["UI Design"]\<close> it returns
  \<^verbatim>\<open>["logo design", "ui design"]\<close>.
\<close>

theorem getAllTags_sorted_distinct_normalized:
  "sorted (getAllTags m) \<and> distinct (getAllTags m)
   \<and> set (getAllTags m) = (\<Union>r \<in> set (works m). normalized ` set (tags (heap m r)))
   \<and> map (tags \<circ> heap ex_tagged) (works ex_tagged) =
       [[''Logo Design'', '' logo design ''], [''UI Design'']]
   \<and> getAllTags ex_tagged = [''logo design'', ''ui design'']"
proof -
  have "getAllTags ex_tagged = [''logo design'', ''ui design'']"
    by code_simp
  moreover have "map (tags \<circ> heap ex_tagged) (works ex_tagged) =
       [[''Logo Design'', '' logo design ''], [''UI Design'']]"
    by (simp add: ex_tagged_def ex_manager_def ex_heap_def ex_work_def)
  ultimately show ?thesis
    by (simp add: getAllTags_def set_fold_works distinct_fold_works)
qed

subsection \<open>Saved works\<close>

text \<open>
  C3. Toggling the same work id twice gives \<^verbatim>\<open>isWorkSaved\<close> of that id the value it
  had before, in every state.
\<close>

theorem toggleSaveWork_twice:
  "isWorkSaved (toggleSaveWork b workId (toggleSaveWork b workId m)) workId = isWorkSaved m workId"
  by (simp add: isWorkSaved_def toggleSaveWork_def saveSavedWorks_def)

subsection \<open>Favorites\<close>

lemma addFavorite_unique: "unique_names m \<Longrightarrow> unique_names (addFavorite b now a m)"
  by (auto simp: unique_names_def addFavorite_def saveFavorites_def find_None_iff)

lemma removeFavorite_unique: "unique_names m \<Longrightarrow> unique_names (removeFavorite b n m)"
  by (simp add: unique_names_def removeFavorite_def saveFavorites_def distinct_map_filter)

lemma favorites_other:
  "favorites (addWork b now r m) = favorites m"
  "favorites (deleteWork b i m) = favorites m"
  "favorites (toggleSaveWork b i m) = favorites m"
  "favorites (setSearchQuery q m) = favorites m"
  "favorites (toggleFilter tag m) = favorites m"
  "favorites (clearFilters m) = favorites m"
  by (simp_all add: addWork_def deleteWork_def toggleSaveWork_def setSearchQuery_def
      toggleFilter_def clearFilters_def applyFilters_def saveWorks_def saveSavedWorks_def Let_def)

lemma perform_unique: "unique_names m \<Longrightarrow> unique_names (perform b x m)"
  by (cases x)
    (simp_all add: addFavorite_unique removeFavorite_unique,
     simp_all add: unique_names_def favorites_other)

lemma performAll_unique: "unique_names m \<Longrightarrow> unique_names (performAll b xs m)"
  by (induction xs arbitrary: m) (simp_all add: perform_unique)

lemma addFavorite_present:
  "name a \<in> name ` set (favorites m) \<Longrightarrow> addFavorite b now a m = m"
  by (auto simp: addFavorite_def find_None_iff)

lemma addFavorite_has_name:
  "name a \<in> name ` set (favorites (addFavorite b now a m))"
  by (auto simp: addFavorite_def saveFavorites_def find_None_iff image_iff) metis

lemma count_one:
  "distinct (map f xs) \<Longrightarrow> x \<in> f ` set xs \<Longrightarrow> length (filter (\<lambda>y. f y = x) xs) = 1"
  by (induction xs) (auto simp: filter_empty_conv image_iff)

text \<open>
  C4. "At most one favorite entry per name" holds of the empty collection and is
  preserved by every sequence of calls of the public mutators; \<^verbatim>\<open>addFavorite(artist)\<close>
  leaves the whole state as it is when an entry with exactly that name is present; and
  from a state with the invariant, two calls of \<^verbatim>\<open>addFavorite({name: "A"})\<close> leave
  exactly one entry named \<^verbatim>\<open>A\<close>.
\<close>

theorem favorites_one_entry_per_name:
  "unique_names (m\<lparr>favorites := []\<rparr>)
   \<and> (unique_names m \<longrightarrow> unique_names (performAll b xs m))
   \<and> (name a \<in> name ` set (favorites m) \<longrightarrow> addFavorite b now a m = m)
   \<and> (unique_names m \<longrightarrow>
        length (filter (\<lambda>fav. name fav = ''A'')
          (favorites (addFavorite b t2 ex_artist (addFavorite b t1 ex_artist m)))) = 1)"
proof -
  have n: "name ex_artist = ''A''"
    by (simp add: ex_artist_def)
  have "length (filter (\<lambda>fav. name fav = ''A'')
          (favorites (addFavorite b t2 ex_artist (addFavorite b t1 ex_artist m)))) = 1"
    if u: "unique_names m"
  proof -
    let ?m1 = "addFavorite b t1 ex_artist m"
    have "addFavorite b t2 ex_artist ?m1 = ?m1"
      by (rule addFavorite_present) (rule addFavorite_has_name)
    moreover have "distinct (map name (favorites ?m1))"
      using addFavorite_unique [OF u] by (simp add: unique_names_def)
    moreover have "''A'' \<in> name ` set (favorites ?m1)"
      using addFavorite_has_name [of ex_artist b t1 m] by (simp add: n)
    ultimately show ?thesis
      by (simp add: count_one)
  qed
  then show ?thesis
    by (simp add: performAll_unique addFavorite_present) (simp add: unique_names_def)
qed

theorem favorites_one_entry_per_name_witness:
  "unique_names ex_manager
   \<and> unique_names (performAll ex_builtins
        [AddFavorite 10 ex_artist, ToggleFilter ''Minimal'', AddFavorite 20 ex_artist,
         RemoveFavorite ''B''] ex_manager)
   \<and> name ex_artist \<in> name ` set (favorites (addFavorite ex_builtins 10 ex_artist ex_manager))
   \<and> addFavorite ex_builtins 20 ex_artist (addFavorite ex_builtins 10 ex_artist ex_manager) =
       addFavorite ex_builtins 10 ex_artist ex_manager
   \<and> length (filter (\<lambda>fav. name fav = ''A'')
        (favorites (addFavorite ex_builtins 20 ex_artist
           (addFavorite ex_builtins 10 ex_artist ex_manager)))) = 1"
proof -
  let ?m1 = "addFavorite ex_builtins 10 ex_artist ex_manager"
  have u: "unique_names ex_manager"
    by (simp add: unique_names_def ex_manager_def)
  have p: "name ex_artist \<in> name ` set (favorites ?m1)"
    by (simp add: addFavorite_def saveFavorites_def ex_manager_def)
  show ?thesis
    using u p
      favorites_one_entry_per_name [of ex_manager ex_builtins
        "[AddFavorite 10 ex_artist, ToggleFilter ''Minimal'', AddFavorite 20 ex_artist,
          RemoveFavorite ''B'']" ex_artist 10 20 10]
      favorites_one_entry_per_name [of ?m1 ex_builtins "[]" ex_artist 20 20 10]
    by simp
qed

subsection \<open>Adding Works\<close>

lemma addWork_works: "works (addWork b now r m) = works m @ [r]"
  by (simp add: addWork_def applyFilters_def saveWorks_def Let_def)

lemma addWork_heap:
  "heap (addWork b now r m) = (heap m)(r := (heap m r)\<lparr>work_id := Some now\<rparr>)"
  by (simp add: addWork_def applyFilters_def saveWorks_def Let_def)

lemma addWorks_ids: "fst (addWorks b calls m) = map (\<lambda>(now, work). Some now) calls"
  by (induction calls arbitrary: m) (auto simp: addWork_heap Let_def case_prod_beta)

lemma addWorks_works: "works (snd (addWorks b calls m)) = works m @ map snd calls"
  by (induction calls arbitrary: m) (auto simp: addWork_works Let_def case_prod_beta)

lemma distinct_map_Some:
  "distinct (map (\<lambda>(now, work). Some now) calls) \<longleftrightarrow> distinct (map fst calls)"
  by (induction calls) (auto simp: image_iff)

text \<open>
  C5, as the code has it. A sequence of \<^verbatim>\<open>addWork\<close> calls from any state appends one
  reference per call, so the collection's length is the starting length plus the number
  of calls; the id a call assigns is the clock reading \<^verbatim>\<open>Date.now()\<close> of that call, so
  the ids assigned in the sequence are pairwise distinct when the clock readings of the
  calls are.
\<close>

theorem addWorks_length_and_ids:
  "length (works (snd (addWorks b calls m))) = length (works m) + length calls
   \<and> works (snd (addWorks b calls m)) = works m @ map snd calls
   \<and> fst (addWorks b calls m) = map (\<lambda>(now, work). Some now) calls
   \<and> (distinct (map fst calls) \<longrightarrow> distinct (fst (addWorks b calls m)))"
  by (simp add: addWorks_ids addWorks_works distinct_map_Some)

theorem addWorks_length_and_ids_witness:
  "distinct (map fst [(1000 :: int, 3 :: ref), (1001, 4)])
   \<and> fst (addWorks ex_builtins [(1000, 3), (1001, 4)] ex_manager) = [Some 1000, Some 1001]
   \<and> distinct (fst (addWorks ex_builtins [(1000, 3), (1001, 4)] ex_manager))
   \<and> works (snd (addWorks ex_builtins [(1000, 3), (1001, 4)] ex_manager)) = [1, 2, 3, 4]"
  using addWorks_length_and_ids [of ex_builtins "[(1000, 3), (1001, 4)]" ex_manager]
  by (simp add: ex_manager_def)

text \<open>
  Two calls that read the same clock value, with two different drafts, assign the same
  id twice.
\<close>

theorem addWorks_same_clock_counterexample:
  "\<not> distinct (fst (addWorks ex_builtins [(1000, 3), (1000, 4)] ex_manager))"
  by code_simp

text \<open>
  C9. \<^verbatim>\<open>addWork(work)\<close> appends the reference it was passed, and writes the id into
  the object at that reference, leaving every other object and every other field alone.
  The new last element of the collection is therefore the caller's object with its id
  set, and after any later change \<open>f\<close> the caller makes to that object, the last element
  of the collection is the changed object.
\<close>

theorem addWork_stores_the_reference:
  "works (addWork b now r m) = works m @ [r]
   \<and> heap (addWork b now r m) = (heap m)(r := (heap m r)\<lparr>work_id := Some now\<rparr>)
   \<and> last (worksView (addWork b now r m)) = (heap m r)\<lparr>work_id := Some now\<rparr>
   \<and> last (worksView (mutate r f (addWork b now r m))) = f ((heap m r)\<lparr>work_id := Some now\<rparr>)"
  by (simp add: worksView_def mutate_def addWork_works addWork_heap)

theorem addWork_stores_the_reference_witness:
  "title (last (worksView (addWork ex_builtins 1000 3 ex_manager))) = ''Draft''
   \<and> title (last (worksView (mutate 3 (\<lambda>w. w\<lparr>title := ''Changed''\<rparr>)
              (addWork ex_builtins 1000 3 ex_manager)))) = ''Changed''"
  using addWork_stores_the_reference
    [of ex_builtins 1000 3 ex_manager "\<lambda>w. w\<lparr>title := ''Changed''\<rparr>"]
  by (simp add: ex_manager_def ex_heap_def ex_work_def)

subsection \<open>Deleting Works\<close>

lemma deleteWork_works:
  "works (deleteWork b i m) = filter (\<lambda>r. work_id (heap m r) \<noteq> Some i) (works m)"
  by (simp add: deleteWork_def applyFilters_def saveWorks_def)

lemma deleteWork_heap: "heap (deleteWork b i m) = heap m"
  by (simp add: deleteWork_def applyFilters_def saveWorks_def)

lemma deleteWork_idem: "deleteWork b i (deleteWork b i m) = deleteWork b i m"
  by (simp add: deleteWork_def applyFilters_def saveWorks_def)

text \<open>
  C6. \<^verbatim>\<open>deleteWork\<close> is a total state transformer: nothing in its body can throw on
  a catalog of Work objects. When no Work of the catalog has the id, the collection and
  its objects are unchanged. After \<^verbatim>\<open>deleteWork(id)\<close> no Work has the id, and a second
  \<^verbatim>\<open>deleteWork(id)\<close> leaves the whole state as the first call left it.
\<close>

theorem deleteWork_absent_noop:
  "((\<forall>r \<in> set (works m). work_id (heap m r) \<noteq> Some i) \<longrightarrow>
      works (deleteWork b i m) = works m \<and> heap (deleteWork b i m) = heap m \<and>
      worksView (deleteWork b i m) = worksView m)
   \<and> (\<forall>r \<in> set (works (deleteWork b i m)). work_id (heap (deleteWork b i m) r) \<noteq> Some i)
   \<and> deleteWork b i (deleteWork b i m) = deleteWork b i m"
  by (simp add: deleteWork_works deleteWork_heap deleteWork_idem worksView_def)

theorem deleteWork_absent_noop_witness:
  "map work_id (worksView ex_manager) = [Some 1, Some 2]
   \<and> works (deleteWork ex_builtins 7 ex_manager) = [1, 2]
   \<and> works (deleteWork ex_builtins 1 ex_manager) = [2]
   \<and> works (deleteWork ex_builtins 1 (deleteWork ex_builtins 1 ex_manager)) = [2]"
proof -
  have h: "\<forall>r \<in> set (works ex_manager). work_id (heap ex_manager r) \<noteq> Some 7"
    by (simp add: ex_manager_def ex_heap_def ex_work_def)
  have d: "works (deleteWork ex_builtins 1 ex_manager) = [2]"
    by (simp add: deleteWork_works ex_manager_def ex_heap_def ex_work_def)
  have v: "map work_id (worksView ex_manager) = [Some 1, Some 2]"
    by (simp add: worksView_def ex_manager_def ex_heap_def ex_work_def)
  have "works (deleteWork ex_builtins 7 ex_manager) = works ex_manager"
    using deleteWork_absent_noop [of ex_manager 7 ex_builtins] h by blast
  moreover have "deleteWork ex_builtins 1 (deleteWork ex_builtins 1 ex_manager) =
      deleteWork ex_builtins 1 ex_manager"
    using deleteWork_absent_noop [of ex_manager 1 ex_builtins] by blast
  ultimately show ?thesis
    using v d by (simp add: ex_manager_def)
qed

subsection \<open>Tag filters\<close>

lemma toggleFilter_active:
  "set (activeFilters (toggleFilter tag m)) =
     (if normalized tag \<in> set (activeFilters m)
      then set (activeFilters m) - {normalized tag}
      else insert (normalized tag) (set (activeFilters m)))"
  by (auto simp: toggleFilter_def applyFilters_def Set_has_def Set_add_def Set_delete_def
      normalized_def Let_def)

lemma toggleFilter_filtered:
  "filteredWorks (toggleFilter tag m) =
     filter (\<lambda>r. spec_search_match (searchQuery m) (heap m r) \<and>
                 spec_tag_match (set (activeFilters (toggleFilter tag m))) (heap m r)) (works m)"
  by (simp add: toggleFilter_def Let_def filteredWorks_applyFilters applyFilters_frame)

text \<open>
  C7. \<^verbatim>\<open>toggleFilter(tag)\<close> removes the normalized tag from the active filters when it
  is among them and adds it otherwise; \<open>filteredWorks\<close> is then the Works collection
  filtered with the new active filters; and two raw strings with the same normalized
  form have the same effect on every state.
\<close>

theorem toggleFilter_on_normalized_tag:
  "set (activeFilters (toggleFilter tag m)) =
     (if normalized tag \<in> set (activeFilters m)
      then set (activeFilters m) - {normalized tag}
      else insert (normalized tag) (set (activeFilters m)))
   \<and> filteredWorks (toggleFilter tag m) =
     filter (\<lambda>r. spec_search_match (searchQuery m) (heap m r) \<and>
                 spec_tag_match (set (activeFilters (toggleFilter tag m))) (heap m r)) (works m)
   \<and> (normalized tag = normalized tag' \<longrightarrow> toggleFilter tag m = toggleFilter tag' m)"
  using toggleFilter_active [of tag m] toggleFilter_filtered [of tag m]
  by (simp add: toggleFilter_def normalized_def)

theorem toggleFilter_on_normalized_tag_witness:
  "normalized ''Logo Design'' = normalized '' logo design ''
   \<and> ''Logo Design'' \<noteq> '' logo design ''
   \<and> toggleFilter ''Logo Design'' ex_manager = toggleFilter '' logo design '' ex_manager
   \<and> set (activeFilters (toggleFilter ''Logo Design'' ex_manager)) = {''logo design''}
   \<and> set (activeFilters
        (toggleFilter '' logo design '' (toggleFilter ''Logo Design'' ex_manager))) = {}"
proof -
  let ?m = "toggleFilter ''Logo Design'' ex_manager"
  have n: "normalized ''Logo Design'' = ''logo design''"
    "normalized '' logo design '' = ''logo design''"
    by code_simp+
  have a: "activeFilters ex_manager = []"
    by (simp add: ex_manager_def)
  note first = toggleFilter_on_normalized_tag [of "''Logo Design''" ex_manager "'' logo design ''"]
  note second = toggleFilter_on_normalized_tag [of "'' logo design ''" ?m "'' logo design ''"]
  have 1: "toggleFilter ''Logo Design'' ex_manager = toggleFilter '' logo design '' ex_manager"
    using first [THEN conjunct2, THEN conjunct2] n by simp
  have 2: "set (activeFilters ?m) = {''logo design''}"
    using first [THEN conjunct1] n a by simp
  have 3: "set (activeFilters (toggleFilter '' logo design '' ?m)) = {}"
    using second [THEN conjunct1] n 2 by simp
  show ?thesis
    using 1 2 3 n by simp
qed

text \<open>
  C10. \<^verbatim>\<open>clearFilters()\<close> empties the active filters and leaves the query, the Works
  collection and its objects alone; \<open>filteredWorks\<close> is then the Works collection
  filtered by the search predicate alone, which is the whole collection when the query
  is empty.
\<close>

theorem clearFilters_leaves_search_only:
  "activeFilters (clearFilters m) = []
   \<and> searchQuery (clearFilters m) = searchQuery m
   \<and> works (clearFilters m) = works m
   \<and> heap (clearFilters m) = heap m
   \<and> filteredWorks (clearFilters m) =
       filter (\<lambda>r. spec_search_match (searchQuery m) (heap m r)) (works m)
   \<and> (searchQuery m = [] \<longrightarrow> filteredWorks (clearFilters m) = works m)"
  by (simp add: clearFilters_def Set_clear_def filteredWorks_applyFilters applyFilters_frame
      spec_tag_match_def spec_search_match_def)

text \<open>
  The specification's example: the filter \<^verbatim>\<open>logo design\<close> keeps the first of the two
  Works, and \<^verbatim>\<open>clearFilters()\<close> brings both back.
\<close>

theorem clearFilters_leaves_search_only_witness:
  "searchQuery (toggleFilter ''logo design'' ex_manager) = []
   \<and> filteredWorks (toggleFilter ''logo design'' ex_manager) = [1]
   \<and> filteredWorks (clearFilters (toggleFilter ''logo design'' ex_manager)) = [1, 2]"
proof -
  let ?m = "toggleFilter ''logo design'' ex_manager"
  have q: "searchQuery ?m = []"
    by (simp add: toggleFilter_def applyFilters_frame Let_def ex_manager_def)
  have w: "works ?m = [1, 2]"
    by (simp add: toggleFilter_def applyFilters_frame Let_def ex_manager_def)
  have f: "filteredWorks ?m = [1]"
    by code_simp
  have "filteredWorks (clearFilters ?m) = works ?m"
    using clearFilters_leaves_search_only [of ?m] q by blast
  then show ?thesis
    using q w f by simp
qed

subsection \<open>Loading\<close>

text \<open>
  C8. When the blob store has no value under a collection's key, the loader of that
  collection returns the empty collection and not an error, for each of the three
  collections.
\<close>

theorem load_missing_key_is_empty:
  "(ls storageKey = None \<longrightarrow> loadWorks b ls = Inr [])
   \<and> (ls favoritesKey = None \<longrightarrow> loadFavorites b ls = Inr [])
   \<and> (ls savedWorksKey = None \<longrightarrow> loadSavedWorks b ls = Inr [])"
  by (simp add: loadWorks_def loadFavorites_def loadSavedWorks_def)

theorem load_missing_key_is_empty_witness:
  "Map.empty storageKey = None \<and> Map.empty favoritesKey = None
   \<and> Map.empty savedWorksKey = None
   \<and> loadWorks ex_builtins Map.empty = Inr []
   \<and> loadFavorites ex_builtins Map.empty = Inr []
   \<and> loadSavedWorks ex_builtins Map.empty = Inr []"
  using load_missing_key_is_empty [of Map.empty ex_builtins]
  by simp

end
